theory Spec2Isabelle
  imports Main
begin

section \<open>Data model of package async (src/async/fetcher.go)\<close>

text \<open>
  A Go \<open>error\<close> value is modelled by its message; \<open>nil\<close> is \<open>None\<close>.
\<close>

type_synonym error = string

text \<open>
  The goroutine started by \<open>Run\<close> observes its \<open>context.Context\<close> at two instants:
  on entry (the \<open>select\<close> on \<open>ctx.Done()\<close> and the \<open>ctx.Err()\<close> of that branch) and
  once the call of \<open>Fn\<close> is over (the two \<open>ctx.Err()\<close> calls after it). By the contract of
  \<open>context.Context\<close>, \<open>Done()\<close> is closed exactly when \<open>Err()\<close> is non-nil. A context
  is the record of what these observations yield in one execution.
\<close>

record ctx =
  err_on_entry :: "error option"
  err_after_call :: "error option"

text \<open>
  What a call \<open>f.Fn(ctx, f.Arg)\<close> does: it returns a value and an error, or it panics
  with a payload (the non-nil value \<open>recover()\<close> yields in the deferred function).
\<close>

datatype ('T, 'p) outcome = Return 'T "error option" | Panic 'p

record 'T Result =
  Value :: 'T
  Err :: "error option"

text \<open>
  \<open>ch *chan struct{}\<close> is a pointer into the heap of channels (\<open>None\<close> is \<open>nil\<close>).
\<close>

record ('T, 'A, 'p) Fetcher =
  Fn :: "ctx \<Rightarrow> 'A \<Rightarrow> ('T, 'p) outcome"
  Arg :: 'A
  result :: "'T Result"
  ch :: "nat option"

text \<open>
  What the package takes from the Go runtime and its standard library: the zero value
  of \<open>T\<close>, the renderings of a panic payload by the verbs \<open>%v\<close> and \<open>%+v\<close> of package
  fmt, and the text \<open>debug.Stack()\<close> returns.
\<close>

record ('T, 'p) runtime =
  zero :: 'T
  fmt_v :: "'p \<Rightarrow> string"
  fmt_plus_v :: "'p \<Rightarrow> string"
  stack :: string

text \<open>
  Calls that leave the package are recorded in a trace: \<open>Fn\<close> invoked for a handle,
  a line written by \<open>log.Printf\<close>, a registered panic handler invoked with its two
  arguments. A panic handler is a function value; the model names it by a value of
  type \<open>'h\<close> and takes it to return (what happens when a handler itself panics is
  outside this package: nothing there recovers it).
\<close>

datatype ('p, 'h) event =
    EvFn nat
  | EvLog string
  | EvHandler 'h ctx 'p

text \<open>
  The state of the process: the package variable \<open>globalPanicHandlers\<close>, the heap of
  Fetchers (a \<open>*Fetcher\<close> is an index), the heap of channels (\<open>True\<close> once closed),
  the goroutines started by \<open>go\<close> statements (the handle and the context each one
  captured), and the trace.
\<close>

record ('T, 'A, 'p, 'h) state =
  globalPanicHandlers :: "'h list"
  fetchers :: "('T, 'A, 'p) Fetcher list"
  chans :: "bool list"
  threads :: "(nat \<times> ctx) list"
  trace :: "('p, 'h) event list"

section \<open>Operations\<close>

text \<open>\<open>SetPanicHandlers\<close>: under the write lock, the package variable is replaced.\<close>

definition SetPanicHandlers ::
  "'h list \<Rightarrow> ('T, 'A, 'p, 'h) state \<Rightarrow> ('T, 'A, 'p, 'h) state" where
  "SetPanicHandlers handlers s = s\<lparr>globalPanicHandlers := handlers\<rparr>"

text \<open>\<open>Async\<close>: a new Fetcher with \<open>Fn\<close> and \<open>Arg\<close> set and every other field zero.\<close>

definition Async ::
  "('T, 'p) runtime \<Rightarrow> (ctx \<Rightarrow> 'A \<Rightarrow> ('T, 'p) outcome) \<Rightarrow> 'A \<Rightarrow> ('T, 'A, 'p, 'h) state
     \<Rightarrow> nat \<times> ('T, 'A, 'p, 'h) state" where
  "Async rt fn arg s =
     (length (fetchers s),
      s\<lparr>fetchers := fetchers s @
           [\<lparr>Fn = fn, Arg = arg, result = \<lparr>Value = zero rt, Err = None\<rparr>, ch = None\<rparr>]\<rparr>)"

text \<open>
  \<open>Run\<close>, as one caller executes it with no other call of \<open>Run\<close> on the handle in
  between: nothing happens when \<open>f.ch\<close> is set; otherwise a channel is made, \<open>f.ch\<close>
  points to it and the goroutine is started. The handle is returned. (The test of
  \<open>f.ch\<close> and the assignment to it are two steps under no lock: \<open>Run_step\<close> below.)
\<close>

definition Run ::
  "nat \<Rightarrow> ctx \<Rightarrow> ('T, 'A, 'p, 'h) state \<Rightarrow> nat \<times> ('T, 'A, 'p, 'h) state" where
  "Run f c s =
     (case ch (fetchers s ! f) of
        Some q \<Rightarrow> (f, s)
      | None \<Rightarrow>
          (f, s\<lparr>fetchers := (fetchers s)[f := (fetchers s ! f)\<lparr>ch := Some (length (chans s))\<rparr>],
                chans := chans s @ [False],
                threads := threads s @ [(f, c)]\<rparr>))"

text \<open>\<open>handlePanicErr\<close>: one log line, then every registered handler in order.\<close>

definition handlePanicErr ::
  "('T, 'p) runtime \<Rightarrow> ctx \<Rightarrow> 'p \<Rightarrow> ('T, 'A, 'p, 'h) state \<Rightarrow> ('T, 'A, 'p, 'h) state" where
  "handlePanicErr rt c r s =
     s\<lparr>trace := trace s
          @ [EvLog (''[ERROR] Panic recovered - '' @ fmt_plus_v rt r @ [CHR 0x0A] @ stack rt)]
          @ map (\<lambda>fn. EvHandler fn c r) (globalPanicHandlers s)\<rparr>"

text \<open>The error \<open>fmt.Errorf\<close> builds in the deferred function of the goroutine.\<close>

definition panic_error :: "('T, 'p) runtime \<Rightarrow> 'p \<Rightarrow> error" where
  "panic_error rt r = ''[Fetcher.Async]: panic recovered: '' @ fmt_v rt r"

definition set_result ::
  "nat \<Rightarrow> 'T Result \<Rightarrow> ('T, 'A, 'p, 'h) state \<Rightarrow> ('T, 'A, 'p, 'h) state" where
  "set_result f r s = s\<lparr>fetchers := (fetchers s)[f := (fetchers s ! f)\<lparr>result := r\<rparr>]\<rparr>"

text \<open>
  The body of the goroutine, without its deferred function. It yields the payload when
  it ends by a panic of \<open>Fn\<close>, and \<open>None\<close> when it returns.
\<close>

definition body ::
  "('T, 'p) runtime \<Rightarrow> nat \<Rightarrow> ctx \<Rightarrow> ('T, 'A, 'p, 'h) state
     \<Rightarrow> 'p option \<times> ('T, 'A, 'p, 'h) state" where
  "body rt f c s =
     (case err_on_entry c of
        Some e \<Rightarrow> (None, set_result f \<lparr>Value = zero rt, Err = err_on_entry c\<rparr> s)
      | None \<Rightarrow>
         (let s1 = s\<lparr>trace := trace s @ [EvFn f]\<rparr> in
          case Fn (fetchers s ! f) c (Arg (fetchers s ! f)) of
            Panic r \<Rightarrow> (Some r, s1)
          | Return val err \<Rightarrow>
              (let err' = (if err_after_call c \<noteq> None \<and> err = None then err_after_call c else err)
               in (None, set_result f \<lparr>Value = val, Err = err'\<rparr> s1))))"

text \<open>
  The deferred function: after a panic, the handlers are dispatched and the error of
  the result is overwritten; then the channel is closed. Closing through a nil pointer
  or closing a closed channel is a panic nothing recovers (\<open>Inl\<close>).
\<close>

definition deferred ::
  "('T, 'p) runtime \<Rightarrow> nat \<Rightarrow> ctx \<Rightarrow> 'p option \<Rightarrow> ('T, 'A, 'p, 'h) state
     \<Rightarrow> string + ('T, 'A, 'p, 'h) state" where
  "deferred rt f c rec s =
     (let s1 = (case rec of
                  Some r \<Rightarrow>
                    (let s' = handlePanicErr rt c r s
                     in set_result f ((result (fetchers s' ! f))\<lparr>Err := Some (panic_error rt r)\<rparr>) s')
                | None \<Rightarrow> s)
      in case ch (fetchers s1 ! f) of
           None \<Rightarrow> Inl ''invalid memory address or nil pointer dereference''
         | Some q \<Rightarrow>
             if chans s1 ! q then Inl ''close of closed channel''
             else Inr (s1\<lparr>chans := (chans s1)[q := True]\<rparr>))"

definition goroutine ::
  "('T, 'p) runtime \<Rightarrow> nat \<Rightarrow> ctx \<Rightarrow> ('T, 'A, 'p, 'h) state
     \<Rightarrow> string + ('T, 'A, 'p, 'h) state" where
  "goroutine rt f c s = (case body rt f c s of (rec, s1) \<Rightarrow> deferred rt f c rec s1)"

text \<open>
  \<open>Await\<close>: a panic before \<open>Run\<close>; then the receive on the channel, which blocks
  while the channel is open and lets the stored pair be returned once it is closed.
\<close>

datatype 'T awaited = AwaitPanic string | AwaitBlocks | AwaitReturns 'T "error option"

definition Await :: "nat \<Rightarrow> ('T, 'A, 'p, 'h) state \<Rightarrow> 'T awaited" where
  "Await f s =
     (case ch (fetchers s ! f) of
        None \<Rightarrow> AwaitPanic ''fetcher not started, call Run() first''
      | Some q \<Rightarrow>
          if chans s ! q
          then AwaitReturns (Value (result (fetchers s ! f))) (Err (result (fetchers s ! f)))
          else AwaitBlocks)"

section \<open>A computation from its creation to its completion\<close>

text \<open>
  \<open>Async(fn, arg).Run(ctx)\<close>, followed by the goroutine that \<open>Run\<close> started, run to
  its end: the handle and the state then, or the message of a panic nothing recovered.
\<close>

definition complete ::
  "('T, 'p) runtime \<Rightarrow> (ctx \<Rightarrow> 'A \<Rightarrow> ('T, 'p) outcome) \<Rightarrow> 'A \<Rightarrow> ctx
     \<Rightarrow> ('T, 'A, 'p, 'h) state \<Rightarrow> string + nat \<times> ('T, 'A, 'p, 'h) state" where
  "complete rt fn arg c s =
     (case Async rt fn arg s of (f, s1) \<Rightarrow>
       (case Run f c s1 of (f', s2) \<Rightarrow>
         (case goroutine rt f' c s2 of
            Inl m \<Rightarrow> Inl m
          | Inr s3 \<Rightarrow> Inr (f', s3))))"

text \<open>What \<open>Await\<close> on that handle then gives.\<close>

definition await_complete ::
  "('T, 'p) runtime \<Rightarrow> (ctx \<Rightarrow> 'A \<Rightarrow> ('T, 'p) outcome) \<Rightarrow> 'A \<Rightarrow> ctx
     \<Rightarrow> ('T, 'A, 'p, 'h) state \<Rightarrow> string + 'T awaited" where
  "await_complete rt fn arg c s =
     (case complete rt fn arg c s of
        Inl m \<Rightarrow> Inl m
      | Inr (f, s') \<Rightarrow> Inr (Await f s'))"

text \<open>
  What else the process may do afterwards: calls of \<open>Run\<close>, \<open>Async\<close> and
  \<open>SetPanicHandlers\<close>, and other computations from their creation to their completion.
\<close>

datatype ('T, 'A, 'p, 'h) op =
    OpRun nat ctx
  | OpAsync "ctx \<Rightarrow> 'A \<Rightarrow> ('T, 'p) outcome" 'A
  | OpSetPanicHandlers "'h list"
  | OpComplete "ctx \<Rightarrow> 'A \<Rightarrow> ('T, 'p) outcome" 'A ctx

fun apply_op ::
  "('T, 'p) runtime \<Rightarrow> ('T, 'A, 'p, 'h) op \<Rightarrow> ('T, 'A, 'p, 'h) state
     \<Rightarrow> string + ('T, 'A, 'p, 'h) state" where
  "apply_op rt (OpRun f c) s = Inr (snd (Run f c s))"
| "apply_op rt (OpAsync fn arg) s = Inr (snd (Async rt fn arg s))"
| "apply_op rt (OpSetPanicHandlers hs) s = Inr (SetPanicHandlers hs s)"
| "apply_op rt (OpComplete fn arg c) s =
     (case complete rt fn arg c s of Inl m \<Rightarrow> Inl m | Inr (f, s') \<Rightarrow> Inr s')"

fun apply_ops ::
  "('T, 'p) runtime \<Rightarrow> ('T, 'A, 'p, 'h) op list \<Rightarrow> ('T, 'A, 'p, 'h) state
     \<Rightarrow> string + ('T, 'A, 'p, 'h) state" where
  "apply_ops rt [] s = Inr s"
| "apply_ops rt (x # xs) s =
     (case apply_op rt x s of Inl m \<Rightarrow> Inl m | Inr s' \<Rightarrow> apply_ops rt xs s')"

text \<open>What \<open>Await\<close> on the handle of a completed computation gives after all that.\<close>

definition await_later ::
  "('T, 'p) runtime \<Rightarrow> (ctx \<Rightarrow> 'A \<Rightarrow> ('T, 'p) outcome) \<Rightarrow> 'A \<Rightarrow> ctx
     \<Rightarrow> ('T, 'A, 'p, 'h) op list \<Rightarrow> ('T, 'A, 'p, 'h) state \<Rightarrow> string + 'T awaited" where
  "await_later rt fn arg c ops s =
     (case complete rt fn arg c s of
        Inl m \<Rightarrow> Inl m
      | Inr (f, s') \<Rightarrow>
          (case apply_ops rt ops s' of
             Inl m \<Rightarrow> Inl m
           | Inr s'' \<Rightarrow> Inr (Await f s'')))"

text \<open>Repeated calls of \<open>Run\<close> on one handle.\<close>

fun Runs :: "nat \<Rightarrow> ctx list \<Rightarrow> ('T, 'A, 'p, 'h) state \<Rightarrow> ('T, 'A, 'p, 'h) state" where
  "Runs f [] s = s"
| "Runs f (c # cs) s = Runs f cs (snd (Run f c s))"

text \<open>
  A call of \<open>Run\<close> step by step. The Fetcher has no lock: the caller first tests
  \<open>f.ch\<close> (and returns when it is set), and in a later step makes the channel, assigns
  \<open>f.ch\<close> and starts the goroutine.
\<close>

datatype run_pc = RunTest | RunStart | RunReturned

fun Run_step ::
  "nat \<Rightarrow> ctx \<Rightarrow> run_pc \<times> ('T, 'A, 'p, 'h) state \<Rightarrow> run_pc \<times> ('T, 'A, 'p, 'h) state" where
  "Run_step f c (RunTest, s) =
     (case ch (fetchers s ! f) of
        Some q \<Rightarrow> (RunReturned, s)
      | None \<Rightarrow> (RunStart, s))"
| "Run_step f c (RunStart, s) =
     (RunReturned,
      s\<lparr>fetchers := (fetchers s)[f := (fetchers s ! f)\<lparr>ch := Some (length (chans s))\<rparr>],
        chans := chans s @ [False],
        threads := threads s @ [(f, c)]\<rparr>)"
| "Run_step f c (RunReturned, s) = (RunReturned, s)"

text \<open>Two callers of \<open>Run\<close> on one handle, their steps taken in the order of a schedule.\<close>

datatype caller = CallerA | CallerB

fun Run_race ::
  "nat \<Rightarrow> ctx \<Rightarrow> ctx \<Rightarrow> caller list \<Rightarrow> run_pc \<times> run_pc \<times> ('T, 'A, 'p, 'h) state
     \<Rightarrow> run_pc \<times> run_pc \<times> ('T, 'A, 'p, 'h) state" where
  "Run_race f cA cB [] x = x"
| "Run_race f cA cB (CallerA # ts) (a, b, s) =
     (case Run_step f cA (a, s) of (a', s') \<Rightarrow> Run_race f cA cB ts (a', b, s'))"
| "Run_race f cA cB (CallerB # ts) (a, b, s) =
     (case Run_step f cB (b, s) of (b', s') \<Rightarrow> Run_race f cA cB ts (a, b', s'))"

text \<open>The goroutines of a list of threads, run to their end one after the other.\<close>

fun run_threads ::
  "('T, 'p) runtime \<Rightarrow> (nat \<times> ctx) list \<Rightarrow> ('T, 'A, 'p, 'h) state
     \<Rightarrow> string + ('T, 'A, 'p, 'h) state" where
  "run_threads rt [] s = Inr s"
| "run_threads rt ((f, c) # ts) s =
     (case goroutine rt f c s of Inl m \<Rightarrow> Inl m | Inr s' \<Rightarrow> run_threads rt ts s')"

text \<open>
  What may happen between two calls of \<open>Run\<close> that do not overlap: the calls above, and
  any goroutine, that of the handle too, running to its end.
\<close>

datatype ('T, 'A, 'p, 'h) act =
    Call "('T, 'A, 'p, 'h) op"
  | Goroutine nat ctx

fun apply_act ::
  "('T, 'p) runtime \<Rightarrow> ('T, 'A, 'p, 'h) act \<Rightarrow> ('T, 'A, 'p, 'h) state
     \<Rightarrow> string + ('T, 'A, 'p, 'h) state" where
  "apply_act rt (Call x) s = apply_op rt x s"
| "apply_act rt (Goroutine f c) s = goroutine rt f c s"

fun apply_acts ::
  "('T, 'p) runtime \<Rightarrow> ('T, 'A, 'p, 'h) act list \<Rightarrow> ('T, 'A, 'p, 'h) state
     \<Rightarrow> string + ('T, 'A, 'p, 'h) state" where
  "apply_acts rt [] s = Inr s"
| "apply_acts rt (x # xs) s =
     (case apply_act rt x s of Inl m \<Rightarrow> Inl m | Inr s' \<Rightarrow> apply_acts rt xs s')"

text \<open>The goroutines started for one handle.\<close>

definition threads_of :: "nat \<Rightarrow> ('T, 'A, 'p, 'h) state \<Rightarrow> (nat \<times> ctx) list" where
  "threads_of f s = filter (\<lambda>t. fst t = f) (threads s)"

text \<open>
  A handle is started with channel \<open>q\<close>, the goroutines \<open>ts\<close> having been started for it.
\<close>

definition started ::
  "nat \<Rightarrow> nat \<Rightarrow> (nat \<times> ctx) list \<Rightarrow> ('T, 'A, 'p, 'h) state \<Rightarrow> bool" where
  "started f q ts s =
     (f < length (fetchers s) \<and> ch (fetchers s ! f) = Some q \<and> threads_of f s = ts)"

text \<open>
  A handle is completed with the pair \<open>(v, e)\<close>: it is started, its channel is closed
  and its result holds the pair.
\<close>

definition completed ::
  "nat \<Rightarrow> 'T \<Rightarrow> error option \<Rightarrow> ('T, 'A, 'p, 'h) state \<Rightarrow> bool" where
  "completed f v e s =
     (f < length (fetchers s) \<and>
      (case ch (fetchers s ! f) of
         None \<Rightarrow> False
       | Some q \<Rightarrow> q < length (chans s) \<and> chans s ! q) \<and>
      result (fetchers s ! f) = \<lparr>Value = v, Err = e\<rparr>)"

section \<open>The registry read while it is written\<close>

text \<open>
  \<open>globalPanicHandlers\<close> is a slice: a header of three words (pointer to the array,
  length, capacity). Under the Go memory model, an assignment to it and a read of it
  that are not ordered by a lock may proceed word by word. \<open>SetPanicHandlers\<close> takes
  \<open>handlersMu.Lock()\<close>, stores the header and unlocks; \<open>handlePanicErr\<close> writes its log
  line and evaluates \<open>range globalPanicHandlers\<close>, loading the header, and takes no
  lock at all.
\<close>

record slice =
  sl_data :: nat
  sl_len :: nat
  sl_cap :: nat

datatype wpc = WLock | WStoreData | WStoreLen | WStoreCap | WUnlock | WDone

datatype rpc = RLog | RLoadData | RLoadLen | RLoadCap | RLoop

record conc =
  handlersMu :: bool
  header :: slice
  wpc :: wpc
  handlers_arg :: slice
  rpc :: rpc
  snapshot :: slice

text \<open>One step of the goroutine in \<open>SetPanicHandlers(handlers...)\<close>.\<close>

definition writer_step :: "conc \<Rightarrow> conc" where
  "writer_step s =
     (case wpc s of
        WLock \<Rightarrow> if handlersMu s then s else s\<lparr>handlersMu := True, wpc := WStoreData\<rparr>
      | WStoreData \<Rightarrow>
          s\<lparr>header := (header s)\<lparr>sl_data := sl_data (handlers_arg s)\<rparr>, wpc := WStoreLen\<rparr>
      | WStoreLen \<Rightarrow>
          s\<lparr>header := (header s)\<lparr>sl_len := sl_len (handlers_arg s)\<rparr>, wpc := WStoreCap\<rparr>
      | WStoreCap \<Rightarrow>
          s\<lparr>header := (header s)\<lparr>sl_cap := sl_cap (handlers_arg s)\<rparr>, wpc := WUnlock\<rparr>
      | WUnlock \<Rightarrow> s\<lparr>handlersMu := False, wpc := WDone\<rparr>
      | WDone \<Rightarrow> s)"

text \<open>One step of the goroutine in \<open>handlePanicErr\<close>; at \<open>RLoop\<close> it calls the handlers
  of its snapshot.\<close>

definition reader_step :: "conc \<Rightarrow> conc" where
  "reader_step s =
     (case rpc s of
        RLog \<Rightarrow> s\<lparr>rpc := RLoadData\<rparr>
      | RLoadData \<Rightarrow>
          s\<lparr>snapshot := (snapshot s)\<lparr>sl_data := sl_data (header s)\<rparr>, rpc := RLoadLen\<rparr>
      | RLoadLen \<Rightarrow>
          s\<lparr>snapshot := (snapshot s)\<lparr>sl_len := sl_len (header s)\<rparr>, rpc := RLoadCap\<rparr>
      | RLoadCap \<Rightarrow>
          s\<lparr>snapshot := (snapshot s)\<lparr>sl_cap := sl_cap (header s)\<rparr>, rpc := RLoop\<rparr>
      | RLoop \<Rightarrow> s)"

datatype tid = Writer | Reader

fun schedule :: "tid list \<Rightarrow> conc \<Rightarrow> conc" where
  "schedule [] s = s"
| "schedule (Writer # ts) s = schedule ts (writer_step s)"
| "schedule (Reader # ts) s = schedule ts (reader_step s)"

section \<open>Example inputs\<close>

text \<open>Payloads that are strings: both verbs render a string as it is.\<close>

definition rt_string :: "(string, string) runtime" where
  "rt_string = \<lparr>zero = [], fmt_v = (\<lambda>r. r), fmt_plus_v = (\<lambda>r. r),
                 stack = ''goroutine 18 [running]:''\<rparr>"

definition state0 :: "(string, int, string, string) state" where
  "state0 = \<lparr>globalPanicHandlers = [], fetchers = [], chans = [], threads = [], trace = []\<rparr>"

text \<open>\<open>context.Background()\<close>; a context cancelled before the goroutine starts; a context
  cancelled while \<open>Fn\<close> runs.\<close>

definition ctx_background :: ctx where
  "ctx_background = \<lparr>err_on_entry = None, err_after_call = None\<rparr>"

definition ctx_cancelled :: ctx where
  "ctx_cancelled = \<lparr>err_on_entry = Some ''context canceled'',
                     err_after_call = Some ''context canceled''\<rparr>"

definition ctx_cancelled_later :: ctx where
  "ctx_cancelled_later = \<lparr>err_on_entry = None, err_after_call = Some ''context canceled''\<rparr>"

text \<open>A lookup that fails for an argument that is not positive; a read that returns what
  it has read so far together with its error; a function that panics.\<close>

definition fetchName :: "ctx \<Rightarrow> int \<Rightarrow> (string, string) outcome" where
  "fetchName c n = (if n \<le> 0 then Return [] (Some ''invalid user ID'') else Return ''user'' None)"

definition readPartial :: "ctx \<Rightarrow> int \<Rightarrow> (string, string) outcome" where
  "readPartial c n = Return ''partial'' (Some ''unexpected EOF'')"

definition panicFn :: "ctx \<Rightarrow> int \<Rightarrow> (string, string) outcome" where
  "panicFn c n = Panic ''boom''"

text \<open>Two handlers are registered and a third call of \<open>SetPanicHandlers\<close>, with one
  handler, starts while a goroutine is in \<open>handlePanicErr\<close>.\<close>

definition header_old :: slice where
  "header_old = \<lparr>sl_data = 100, sl_len = 2, sl_cap = 2\<rparr>"

definition header_new :: slice where
  "header_new = \<lparr>sl_data = 200, sl_len = 1, sl_cap = 1\<rparr>"

definition conc0 :: conc where
  "conc0 = \<lparr>handlersMu = False, header = header_old, wpc = WLock, handlers_arg = header_new,
             rpc = RLog, snapshot = \<lparr>sl_data = 0, sl_len = 0, sl_cap = 0\<rparr>\<rparr>"

text \<open>Two callers of \<open>Run\<close> on a new handle, each testing \<open>f.ch\<close> before the other
  has assigned it.\<close>

definition raced :: "run_pc \<times> run_pc \<times> (string, int, string, string) state" where
  "raced = Run_race 0 ctx_background ctx_cancelled_later [CallerA, CallerB, CallerA, CallerB]
             (RunTest, RunTest, snd (Async rt_string fetchName 5 state0))"

text \<open>What happens after the first \<open>Run\<close> on a new handle: its goroutine runs to
  its end, \<open>Run\<close> is called again, handlers are set, another computation panics,
  \<open>Run\<close> is called once more; and the state all that ends in.\<close>

definition acts0 :: "(string, int, string, string) act list" where
  "acts0 = [Goroutine 0 ctx_background, Call (OpRun 0 ctx_cancelled),
            Call (OpSetPanicHandlers [''h'']), Call (OpComplete panicFn 2 ctx_background),
            Call (OpRun 0 ctx_background)]"

definition state1 :: "(string, int, string, string) state" where
  "state1 = \<lparr>globalPanicHandlers = [''h''],
       fetchers =
         [\<lparr>Fn = fetchName, Arg = 5, result = \<lparr>Value = ''user'', Err = None\<rparr>, ch = Some 0\<rparr>,
          \<lparr>Fn = panicFn, Arg = 2,
            result = \<lparr>Value = [], Err = Some ''[Fetcher.Async]: panic recovered: boom''\<rparr>,
            ch = Some 1\<rparr>],
       chans = [True, True],
       threads = [(0, ctx_background), (1, ctx_background)],
       trace = [EvFn 0, EvFn 1,
                EvLog (''[ERROR] Panic recovered - boom'' @ [CHR 0x0A] @ ''goroutine 18 [running]:''),
                EvHandler ''h'' ctx_background ''boom'']\<rparr>"

section \<open>The computation in each of its three cases\<close>

lemma complete_cancelled:
  assumes "err_on_entry c = Some e"
  shows "complete rt fn arg c s =
    Inr (length (fetchers s),
         s\<lparr>fetchers := fetchers s @
              [\<lparr>Fn = fn, Arg = arg, result = \<lparr>Value = zero rt, Err = Some e\<rparr>,
                ch = Some (length (chans s))\<rparr>],
           chans := chans s @ [True],
           threads := threads s @ [(length (fetchers s), c)]\<rparr>)"
  using assms
  by (simp add: complete_def Async_def Run_def goroutine_def body_def deferred_def
      set_result_def Let_def nth_append)

lemma complete_return:
  assumes "err_on_entry c = None" and "fn c arg = Return v err"
  shows "complete rt fn arg c s =
    Inr (length (fetchers s),
         s\<lparr>fetchers := fetchers s @
              [\<lparr>Fn = fn, Arg = arg,
                result = \<lparr>Value = v,
                          Err = (if err_after_call c \<noteq> None \<and> err = None
                                 then err_after_call c else err)\<rparr>,
                ch = Some (length (chans s))\<rparr>],
           chans := chans s @ [True],
           threads := threads s @ [(length (fetchers s), c)],
           trace := trace s @ [EvFn (length (fetchers s))]\<rparr>)"
  using assms
  by (simp add: complete_def Async_def Run_def goroutine_def body_def deferred_def
      set_result_def Let_def nth_append)

lemma complete_panic:
  assumes "err_on_entry c = None" and "fn c arg = Panic r"
  shows "complete rt fn arg c s =
    Inr (length (fetchers s),
         s\<lparr>fetchers := fetchers s @
              [\<lparr>Fn = fn, Arg = arg,
                result = \<lparr>Value = zero rt, Err = Some (panic_error rt r)\<rparr>,
                ch = Some (length (chans s))\<rparr>],
           chans := chans s @ [True],
           threads := threads s @ [(length (fetchers s), c)],
           trace := trace s @ [EvFn (length (fetchers s))]
             @ [EvLog (''[ERROR] Panic recovered - '' @ fmt_plus_v rt r @ [CHR 0x0A] @ stack rt)]
             @ map (\<lambda>h. EvHandler h c r) (globalPanicHandlers s)\<rparr>)"
  using assms
  by (simp add: complete_def Async_def Run_def goroutine_def body_def deferred_def
      set_result_def handlePanicErr_def Let_def nth_append)

lemma await_cancelled:
  assumes "err_on_entry c = Some e"
  shows "await_complete rt fn arg c s = Inr (AwaitReturns (zero rt) (Some e))"
  by (simp add: await_complete_def complete_cancelled[OF assms] Await_def)

lemma await_return:
  assumes "err_on_entry c = None" and "fn c arg = Return v err"
  shows "await_complete rt fn arg c s =
    Inr (AwaitReturns v
          (if err_after_call c \<noteq> None \<and> err = None then err_after_call c else err))"
  using assms by (simp add: await_complete_def complete_return Await_def)

lemma await_panic:
  assumes "err_on_entry c = None" and "fn c arg = Panic r"
  shows "await_complete rt fn arg c s = Inr (AwaitReturns (zero rt) (Some (panic_error rt r)))"
  using assms by (simp add: await_complete_def complete_panic Await_def)

section \<open>A completed handle stays completed\<close>

lemma completed_Await: "completed f v e s \<Longrightarrow> Await f s = AwaitReturns v e"
  by (auto simp: completed_def Await_def split: option.splits)

lemma completed_Run: "completed f v e s \<Longrightarrow> completed f v e (snd (Run g c s))"
  by (cases "g = f")
     (auto simp: completed_def Run_def nth_append split: option.splits)

lemma completed_Async: "completed f v e s \<Longrightarrow> completed f v e (snd (Async rt fn arg s))"
  by (auto simp: completed_def Async_def nth_append split: option.splits)

lemma completed_SetPanicHandlers:
  "completed f v e s \<Longrightarrow> completed f v e (SetPanicHandlers hs s)"
  by (auto simp: completed_def SetPanicHandlers_def split: option.splits)

lemma completed_complete:
  assumes "completed f v e s"
  shows "\<exists>g s'. complete rt fn arg c s = Inr (g, s') \<and> completed f v e s'"
proof (cases "err_on_entry c")
  case (Some x)
  from assms show ?thesis
    by (auto simp: complete_cancelled[OF Some] completed_def nth_append split: option.splits)
next
  case None
  show ?thesis
  proof (cases "fn c arg")
    case (Return w err)
    from assms show ?thesis
      by (auto simp: complete_return[where fn=fn and arg=arg, OF None Return] completed_def
          nth_append split: option.splits)
  next
    case (Panic r)
    from assms show ?thesis
      by (auto simp: complete_panic[where fn=fn and arg=arg, OF None Panic] completed_def
          nth_append split: option.splits)
  qed
qed

lemma completed_apply_op:
  assumes "completed f v e s"
  shows "\<exists>s'. apply_op rt x s = Inr s' \<and> completed f v e s'"
proof (cases x)
  case (OpComplete fn arg c)
  from completed_complete[OF assms, of rt fn arg c] show ?thesis
    using OpComplete by auto
qed (use assms in \<open>auto intro: completed_Run completed_Async completed_SetPanicHandlers\<close>)

lemma completed_apply_ops:
  "completed f v e s \<Longrightarrow> \<exists>s'. apply_ops rt xs s = Inr s' \<and> completed f v e s'"
proof (induction xs arbitrary: s)
  case Nil
  then show ?case by simp
next
  case (Cons x xs)
  from completed_apply_op[OF Cons.prems, of rt x]
  obtain s1 where s1: "apply_op rt x s = Inr s1" "completed f v e s1" by blast
  from Cons.IH[OF s1(2)] s1(1) show ?case by simp
qed

lemma complete_completed:
  assumes "err_on_entry c = None" and "fn c arg = Return v err"
  shows "\<exists>f s'. complete rt fn arg c s = Inr (f, s') \<and>
     completed f v (if err_after_call c \<noteq> None \<and> err = None then err_after_call c else err) s'"
  using assms by (simp add: complete_return completed_def)

lemma await_later_return:
  assumes "err_on_entry c = None" and "fn c arg = Return v err"
  shows "await_later rt fn arg c ops s =
     Inr (AwaitReturns v
           (if err_after_call c \<noteq> None \<and> err = None then err_after_call c else err))"
proof -
  from complete_completed[where fn=fn and arg=arg, OF assms, of rt s] obtain f s' where
    c: "complete rt fn arg c s = Inr (f, s')" and
    d: "completed f v
          (if err_after_call c \<noteq> None \<and> err = None then err_after_call c else err) s'"
    by blast
  from completed_apply_ops[OF d, of rt ops] obtain s'' where
    a: "apply_ops rt ops s' = Inr s''" and
    d': "completed f v
          (if err_after_call c \<noteq> None \<and> err = None then err_after_call c else err) s''"
    by blast
  show ?thesis
    by (simp add: await_later_def c a completed_Await[OF d'])
qed

section \<open>Run on a started handle\<close>

lemma Run_steps: "Run_step f c (Run_step f c (RunTest, s)) = (RunReturned, snd (Run f c s))"
  by (simp add: Run_def split: option.splits)

lemma started_Run: "started f q ts s \<Longrightarrow> started f q ts (snd (Run g c s))"
  by (cases "g = f") (auto simp: started_def threads_of_def Run_def split: option.splits)

lemma started_Async: "started f q ts s \<Longrightarrow> started f q ts (snd (Async rt fn arg s))"
  by (auto simp: started_def threads_of_def Async_def nth_append)

lemma started_SetPanicHandlers: "started f q ts s \<Longrightarrow> started f q ts (SetPanicHandlers hs s)"
  by (auto simp: started_def threads_of_def SetPanicHandlers_def)

lemma started_complete:
  assumes "started f q ts s" and "complete rt fn arg c s = Inr (g, s')"
  shows "started f q ts s'"
proof (cases "err_on_entry c")
  case (Some x)
  from assms show ?thesis
    by (auto simp: complete_cancelled[OF Some] started_def threads_of_def nth_append)
next
  case None
  show ?thesis
  proof (cases "fn c arg")
    case (Return w err)
    from assms show ?thesis
      by (auto simp: complete_return[where fn=fn and arg=arg, OF None Return] started_def
          threads_of_def nth_append)
  next
    case (Panic r)
    from assms show ?thesis
      by (auto simp: complete_panic[where fn=fn and arg=arg, OF None Panic] started_def
          threads_of_def nth_append)
  qed
qed

lemma started_set_result: "started f q ts s \<Longrightarrow> started f q ts (set_result g r s)"
  by (cases "g = f") (auto simp: started_def threads_of_def set_result_def)

lemma started_trace: "started f q ts s \<Longrightarrow> started f q ts (s\<lparr>trace := tr\<rparr>)"
  by (simp add: started_def threads_of_def)

lemma started_chans: "started f q ts s \<Longrightarrow> started f q ts (s\<lparr>chans := cs\<rparr>)"
  by (simp add: started_def threads_of_def)

lemma started_body: "started f q ts s \<Longrightarrow> started f q ts (snd (body rt g c s))"
  by (auto simp: body_def Let_def started_set_result started_trace
      split: option.splits outcome.splits)

lemma started_deferred:
  "started f q ts s \<Longrightarrow> deferred rt g c rec s = Inr s' \<Longrightarrow> started f q ts s'"
  by (auto simp: deferred_def Let_def handlePanicErr_def started_set_result started_trace
      started_chans split: option.splits if_splits)

lemma started_goroutine:
  assumes st: "started f q ts s" and g: "goroutine rt g c s = Inr s'"
  shows "started f q ts s'"
proof -
  obtain rec s1 where b: "body rt g c s = (rec, s1)" by (cases "body rt g c s")
  from started_body[OF st, of rt g c] b have "started f q ts s1" by simp
  moreover from g b have "deferred rt g c rec s1 = Inr s'" by (simp add: goroutine_def)
  ultimately show ?thesis by (rule started_deferred)
qed

lemma started_apply_op:
  assumes "started f q ts s" and "apply_op rt x s = Inr s'"
  shows "started f q ts s'"
proof (cases x)
  case (OpRun g c)
  with assms show ?thesis by (auto intro: started_Run)
next
  case (OpAsync fn arg)
  with assms show ?thesis by (auto intro: started_Async)
next
  case (OpSetPanicHandlers hs)
  with assms show ?thesis by (auto intro: started_SetPanicHandlers)
next
  case (OpComplete fn arg c)
  with assms show ?thesis
    by (auto split: sum.splits intro: started_complete)
qed

lemma started_apply_act:
  assumes "started f q ts s" and "apply_act rt x s = Inr s'"
  shows "started f q ts s'"
  using assms by (cases x) (auto intro: started_apply_op started_goroutine)

lemma started_apply_acts:
  "started f q ts s \<Longrightarrow> apply_acts rt xs s = Inr s' \<Longrightarrow> started f q ts s'"
proof (induction xs arbitrary: s)
  case Nil
  then show ?case by simp
next
  case (Cons x xs)
  from Cons.prems(2) obtain s1 where
    s1: "apply_act rt x s = Inr s1" and r: "apply_acts rt xs s1 = Inr s'"
    by (auto split: sum.splits)
  from Cons.IH[OF started_apply_act[OF Cons.prems(1) s1] r] show ?case .
qed

lemma Run_on_started: "ch (fetchers s ! f) = Some q \<Longrightarrow> Run f c s = (f, s)"
  by (simp add: Run_def)

lemma Run_starts:
  assumes "f < length (fetchers s)"
  shows "\<exists>q. started f q
           (if ch (fetchers s ! f) = None then threads_of f s @ [(f, c)] else threads_of f s)
           (snd (Run f c s))"
  using assms by (auto simp: started_def threads_of_def Run_def split: option.splits)

lemma Runs_on_started: "ch (fetchers s ! f) \<noteq> None \<Longrightarrow> Runs f cs s = s"
  by (induction cs) (auto simp: Run_on_started)

section \<open>The claims\<close>

text \<open>
  C1, as written, fails: when \<open>Fn\<close> returns a non-nil error, \<open>Await\<close> returns the value
  \<open>Fn\<close> returned with it, not the zero value of \<open>T\<close>. A read that returns
  \<open>("partial", unexpected EOF)\<close> is awaited as \<open>("partial", unexpected EOF)\<close>, and not
  as the zero value \<open>""\<close> with that error.
\<close>

theorem Await_error_value_not_zero:
  "err_on_entry ctx_background = None \<and>
   readPartial ctx_background 3 = Return ''partial'' (Some ''unexpected EOF'') \<and>
   await_complete rt_string readPartial 3 ctx_background state0
     = Inr (AwaitReturns ''partial'' (Some ''unexpected EOF'')) \<and>
   await_complete rt_string readPartial 3 ctx_background state0
     \<noteq> Inr (AwaitReturns (zero rt_string) (Some ''unexpected EOF''))"
proof -
  have e: "err_on_entry ctx_background = None" by (simp add: ctx_background_def)
  have r: "readPartial ctx_background 3 = Return ''partial'' (Some ''unexpected EOF'')"
    by (simp add: readPartial_def)
  have z: "zero rt_string = []" by (simp add: rt_string_def)
  show ?thesis using e r by (simp add: await_return z)
qed

text \<open>
  C1, amended: for every computation in which \<open>Fn\<close> is invoked (the context is not
  signaled when the goroutine starts) and returns \<open>(v, err)\<close> with \<open>err\<close> non-nil,
  \<open>Await\<close> returns \<open>v\<close>, the value \<open>Fn\<close> returned, paired with exactly that error.
\<close>

theorem Await_error_verbatim:
  assumes "err_on_entry c = None" and "fn c arg = Return v (Some e)"
  shows "await_complete rt fn arg c s = Inr (AwaitReturns v (Some e))"
  using assms by (simp add: await_return)

theorem Await_error_verbatim_witness:
  "err_on_entry ctx_background = None \<and>
   fetchName ctx_background (- 1) = Return [] (Some ''invalid user ID'') \<and>
   await_complete rt_string fetchName (- 1) ctx_background state0
     = Inr (AwaitReturns [] (Some ''invalid user ID''))"
  using Await_error_verbatim[of ctx_background fetchName "- 1" "[]" "''invalid user ID''"
      rt_string state0]
  by (simp add: ctx_background_def fetchName_def)

text \<open>
  C2: when \<open>Fn\<close> panics with payload \<open>r\<close>, \<open>Await\<close> returns the zero value of \<open>T\<close> and a
  non-nil error, whose message is \<open>[Fetcher.Async]: panic recovered:\<close> followed by the
  rendering of \<open>r\<close>.
\<close>

theorem Await_after_panic:
  assumes "err_on_entry c = None" and "fn c arg = Panic r"
  shows "await_complete rt fn arg c s = Inr (AwaitReturns (zero rt) (Some (panic_error rt r)))
     \<and> panic_error rt r = ''[Fetcher.Async]: panic recovered: '' @ fmt_v rt r"
  using assms by (simp add: await_panic panic_error_def)

theorem Await_after_panic_witness:
  "err_on_entry ctx_background = None \<and> panicFn ctx_background 1 = Panic ''boom'' \<and>
   await_complete rt_string panicFn 1 ctx_background state0
     = Inr (AwaitReturns [] (Some ''[Fetcher.Async]: panic recovered: boom''))"
  using Await_after_panic[of ctx_background panicFn 1 "''boom''" rt_string state0]
  by (simp add: ctx_background_def panicFn_def rt_string_def)

text \<open>
  C3: when \<open>Fn\<close> returns \<open>(v, nil)\<close> and the context never fires, \<open>Await\<close> returns
  \<open>(v, nil)\<close>, and it returns the same pair whatever calls of \<open>Run\<close>, \<open>Async\<close> and
  \<open>SetPanicHandlers\<close> and whatever other computations have come in between.
\<close>

theorem Await_success_stable:
  assumes "err_on_entry c = None" and "err_after_call c = None" and "fn c arg = Return v None"
  shows "await_complete rt fn arg c s = Inr (AwaitReturns v None) \<and>
         await_later rt fn arg c ops s = Inr (AwaitReturns v None)"
  using assms by (simp add: await_return await_later_return)

theorem Await_success_stable_witness:
  "err_on_entry ctx_background = None \<and> err_after_call ctx_background = None \<and>
   fetchName ctx_background 5 = Return ''user'' None \<and>
   await_complete rt_string fetchName 5 ctx_background state0 = Inr (AwaitReturns ''user'' None) \<and>
   await_later rt_string fetchName 5 ctx_background
     [OpRun 0 ctx_cancelled, OpSetPanicHandlers [''h''], OpAsync panicFn 1, OpRun 1 ctx_background,
      OpComplete panicFn 2 ctx_background, OpComplete fetchName 2 ctx_cancelled] state0
     = Inr (AwaitReturns ''user'' None)"
  using Await_success_stable[of ctx_background fetchName 5 "''user''" rt_string state0
      "[OpRun 0 ctx_cancelled, OpSetPanicHandlers [''h''], OpAsync panicFn 1,
        OpRun 1 ctx_background, OpComplete panicFn 2 ctx_background,
        OpComplete fetchName 2 ctx_cancelled]"]
  by (simp add: ctx_background_def fetchName_def)

text \<open>
  C4: when the context is already signaled as the goroutine starts, the stored result is
  the zero value of \<open>T\<close> with the error of the context, and \<open>Fn\<close> is not invoked: the
  trace gains no event.
\<close>

theorem cancelled_before_start:
  assumes "err_on_entry c = Some e"
  shows "\<exists>f s'. complete rt fn arg c s = Inr (f, s') \<and> f = length (fetchers s) \<and>
           result (fetchers s' ! f) = \<lparr>Value = zero rt, Err = Some e\<rparr> \<and>
           trace s' = trace s"
  by (simp add: complete_cancelled[OF assms])

theorem cancelled_before_start_witness:
  "err_on_entry ctx_cancelled = Some ''context canceled'' \<and>
   (\<exists>f s'. complete rt_string fetchName 5 ctx_cancelled state0 = Inr (f, s') \<and>
           result (fetchers s' ! f) = \<lparr>Value = [], Err = Some ''context canceled''\<rparr> \<and>
           trace s' = [])"
  using cancelled_before_start[of ctx_cancelled "''context canceled''" rt_string fetchName 5 state0]
  by (auto simp add: ctx_cancelled_def rt_string_def state0_def)

text \<open>
  C5: when \<open>Fn\<close> returns \<open>(v, err)\<close>, the stored value is \<open>v\<close>; the stored error is the
  error of the context as it is after the call when \<open>err\<close> is nil, and \<open>err\<close> itself
  when it is not.
\<close>

theorem cancellation_merge:
  assumes "err_on_entry c = None" and "fn c arg = Return v err"
  shows "\<exists>f s'. complete rt fn arg c s = Inr (f, s') \<and> f = length (fetchers s) \<and>
           Value (result (fetchers s' ! f)) = v \<and>
           Err (result (fetchers s' ! f)) =
             (case err of None \<Rightarrow> err_after_call c | Some e \<Rightarrow> Some e)"
  using assms by (auto simp: complete_return split: option.splits)

theorem cancellation_merge_witness:
  "err_on_entry ctx_cancelled_later = None \<and>
   fetchName ctx_cancelled_later 5 = Return ''user'' None \<and>
   (\<exists>f s'. complete rt_string fetchName 5 ctx_cancelled_later state0 = Inr (f, s') \<and>
           Value (result (fetchers s' ! f)) = ''user'' \<and>
           Err (result (fetchers s' ! f)) = Some ''context canceled'')"
  using cancellation_merge[of ctx_cancelled_later fetchName 5 "''user''" None rt_string state0]
  by (auto simp add: ctx_cancelled_later_def fetchName_def)

text \<open>
  C6, as written, fails: it promises exactly one goroutine per handle whatever the
  calls, and \<open>Run\<close> tests \<open>f.ch\<close> and assigns it in two steps with no lock. When a
  second caller tests \<open>f.ch\<close> after the first caller has tested it and before the first
  has assigned it, both callers make a channel and start a goroutine: two goroutines
  for the handle, two channels, \<open>f.ch\<close> pointing to the second; the goroutines then
  close that one channel twice, which is a panic nothing recovers.
\<close>

theorem Run_overlapping_calls:
  "fst raced = RunReturned \<and> fst (snd raced) = RunReturned \<and>
   threads (snd (snd raced)) = [(0, ctx_background), (0, ctx_cancelled_later)] \<and>
   length (threads_of 0 (snd (snd raced))) = 2 \<and>
   chans (snd (snd raced)) = [False, False] \<and>
   ch (fetchers (snd (snd raced)) ! 0) = Some 1 \<and>
   run_threads rt_string (threads (snd (snd raced))) (snd (snd raced))
     = Inl ''close of closed channel''"
  by (simp add: raced_def Async_def state0_def threads_of_def goroutine_def body_def
      deferred_def set_result_def Let_def ctx_background_def ctx_cancelled_later_def
      fetchName_def rt_string_def)

text \<open>
  C6, amended: once a call of \<open>Run\<close> on a handle has returned, every later call of
  \<open>Run\<close> on it that overlaps no other call of \<open>Run\<close> on that handle is a no-op,
  whatever has happened in between (other calls, goroutines running to their end, that
  of the handle too, so also on a completed handle): it returns the handle and leaves
  the whole state as it is (no channel is made, no goroutine is started, nothing stored
  changes), and the channel of the handle stays the one the first call made. With calls
  that do not overlap, exactly one goroutine is started for a handle.
\<close>

theorem Run_idempotent:
  assumes "f < length (fetchers s)" and "apply_acts rt xs (snd (Run f c s)) = Inr s'"
  shows "fst (Run f c s) = f \<and>
         Run f c' s' = (f, s') \<and>
         Runs f cs s' = s' \<and>
         ch (fetchers s' ! f) = ch (fetchers (snd (Run f c s)) ! f) \<and>
         (ch (fetchers s ! f) = None \<longrightarrow> threads_of f s' = threads_of f s @ [(f, c)])"
proof -
  have 1: "fst (Run f c s) = f" by (simp add: Run_def split: option.splits)
  from Run_starts[OF assms(1), of c] obtain q where
    a: "started f q
          (if ch (fetchers s ! f) = None then threads_of f s @ [(f, c)] else threads_of f s)
          (snd (Run f c s))" by blast
  from started_apply_acts[OF a assms(2)] have
    b: "started f q
          (if ch (fetchers s ! f) = None then threads_of f s @ [(f, c)] else threads_of f s) s'" .
  from b have q: "ch (fetchers s' ! f) = Some q" by (simp add: started_def)
  have 2: "Run f c' s' = (f, s')" by (rule Run_on_started[OF q])
  have 3: "Runs f cs s' = s'" by (rule Runs_on_started) (simp add: q)
  from a q have 4: "ch (fetchers s' ! f) = ch (fetchers (snd (Run f c s)) ! f)"
    by (simp add: started_def)
  from b have 5: "ch (fetchers s ! f) = None \<longrightarrow> threads_of f s' = threads_of f s @ [(f, c)]"
    by (simp add: started_def)
  from 1 2 3 4 5 show ?thesis by blast
qed

lemma acts0_state1:
  "apply_acts rt_string acts0 (snd (Run 0 ctx_background (snd (Async rt_string fetchName 5 state0))))
     = Inr state1"
  by (simp add: acts0_def state1_def Run_def Async_def state0_def goroutine_def body_def
      deferred_def set_result_def handlePanicErr_def SetPanicHandlers_def complete_def Let_def
      ctx_background_def ctx_cancelled_def fetchName_def panicFn_def rt_string_def panic_error_def)

theorem Run_idempotent_witness:
  "0 < length (fetchers (snd (Async rt_string fetchName 5 state0))) \<and>
   apply_acts rt_string acts0
     (snd (Run 0 ctx_background (snd (Async rt_string fetchName 5 state0)))) = Inr state1 \<and>
   ch (fetchers (snd (Async rt_string fetchName 5 state0)) ! 0) = None \<and>
   Run 0 ctx_cancelled state1 = (0, state1) \<and>
   Runs 0 [ctx_cancelled, ctx_background] state1 = state1 \<and>
   threads_of 0 state1 = [(0, ctx_background)] \<and>
   Await 0 state1 = AwaitReturns ''user'' None"
proof -
  have h: "0 < length (fetchers (snd (Async rt_string fetchName 5 state0)))"
    by (simp add: Async_def)
  have n: "ch (fetchers (snd (Async rt_string fetchName 5 state0)) ! 0) = None"
    by (simp add: Async_def state0_def)
  have t: "threads_of 0 (snd (Async rt_string fetchName 5 state0)) = []"
    by (simp add: threads_of_def Async_def state0_def)
  have w: "Await 0 state1 = AwaitReturns ''user'' None"
    by (simp add: Await_def state1_def)
  from Run_idempotent[OF h acts0_state1, of ctx_cancelled "[ctx_cancelled, ctx_background]"]
    h n acts0_state1 w
  show ?thesis unfolding t append_Nil by blast
qed

text \<open>
  C7: on a handle \<open>Run\<close> was never called on (its \<open>ch\<close> is nil, as \<open>Async\<close> leaves
  it), \<open>Await\<close> neither returns a pair nor blocks: it panics.
\<close>

theorem Await_before_Run:
  "Await (fst (Async rt fn arg s)) (snd (Async rt fn arg s))
     = AwaitPanic ''fetcher not started, call Run() first'' \<and>
   (ch (fetchers s ! f) = None \<longrightarrow>
      Await f s = AwaitPanic ''fetcher not started, call Run() first'')"
  by (simp add: Await_def Async_def)

theorem Await_before_Run_witness:
  "ch (fetchers (snd (Async rt_string fetchName 5 state0)) ! 0) = None \<and>
   Await 0 (snd (Async rt_string fetchName 5 state0))
     = AwaitPanic ''fetcher not started, call Run() first''"
  using Await_before_Run[of rt_string fetchName 5 state0 0]
  by (simp add: Async_def state0_def)

text \<open>
  C8: when \<open>Fn\<close> panics with payload \<open>r\<close>, the goroutine writes one log line (payload
  and stack) and then calls every registered handler once, in the order of
  registration, each with the same context and \<open>r\<close>; after \<open>SetPanicHandlers()\<close> with no
  argument the log line is still written and no handler is called.
\<close>

theorem panic_dispatch:
  assumes "err_on_entry c = None" and "fn c arg = Panic r"
  shows "\<exists>f s' s''.
           complete rt fn arg c s = Inr (f, s') \<and> f = length (fetchers s) \<and>
           trace s' = trace s
             @ [EvFn f,
                EvLog (''[ERROR] Panic recovered - '' @ fmt_plus_v rt r @ [CHR 0x0A] @ stack rt)]
             @ map (\<lambda>h. EvHandler h c r) (globalPanicHandlers s) \<and>
           complete rt fn arg c (SetPanicHandlers [] s) = Inr (f, s'') \<and>
           trace s'' = trace s
             @ [EvFn f,
                EvLog (''[ERROR] Panic recovered - '' @ fmt_plus_v rt r @ [CHR 0x0A] @ stack rt)]"
  using assms by (simp add: complete_panic SetPanicHandlers_def)

theorem panic_dispatch_witness:
  "err_on_entry ctx_background = None \<and> panicFn ctx_background 1 = Panic ''boom'' \<and>
   (\<exists>f s'. complete rt_string panicFn 1 ctx_background (SetPanicHandlers [''h1'', ''h2''] state0)
              = Inr (f, s') \<and>
       trace s' = [EvFn 0,
                   EvLog (''[ERROR] Panic recovered - boom'' @ [CHR 0x0A] @ ''goroutine 18 [running]:''),
                   EvHandler ''h1'' ctx_background ''boom'',
                   EvHandler ''h2'' ctx_background ''boom''])"
  using panic_dispatch[of ctx_background panicFn 1 "''boom''" rt_string
      "SetPanicHandlers [''h1'', ''h2''] state0"]
  by (auto simp add: ctx_background_def panicFn_def rt_string_def state0_def SetPanicHandlers_def)

text \<open>
  C9 does not hold of the code. While \<open>SetPanicHandlers\<close> holds the lock and has stored
  the first word of the new header, \<open>handlePanicErr\<close>, which takes no lock, loads all
  three words: its snapshot has the array of the new list and the length of the old
  one, and is neither list.
\<close>

theorem handlePanicErr_torn_snapshot:
  "wpc (schedule [Writer, Writer, Reader, Reader, Reader, Reader] conc0) = WStoreLen \<and>
   handlersMu (schedule [Writer, Writer, Reader, Reader, Reader, Reader] conc0) \<and>
   rpc (schedule [Writer, Writer, Reader, Reader, Reader, Reader] conc0) = RLoop \<and>
   snapshot (schedule [Writer, Writer, Reader, Reader, Reader, Reader] conc0)
     = \<lparr>sl_data = 200, sl_len = 2, sl_cap = 2\<rparr> \<and>
   snapshot (schedule [Writer, Writer, Reader, Reader, Reader, Reader] conc0) \<noteq> header_old \<and>
   snapshot (schedule [Writer, Writer, Reader, Reader, Reader, Reader] conc0) \<noteq> header_new"
  by (simp add: conc0_def writer_step_def reader_step_def header_old_def header_new_def)

text \<open>
  C10: when \<open>Fn\<close> panics with payload \<open>r\<close> and the context has fired by then, the error
  \<open>Await\<close> returns is the error built from \<open>r\<close>, not the error of the context; with the
  same context, a function that returns \<open>(v, nil)\<close> gets the error of the context.
\<close>

theorem panic_beats_cancellation:
  assumes "err_on_entry c = None" and "err_after_call c = Some e" and "fn c arg = Panic r"
    and "fn' c arg = Return v None"
  shows "await_complete rt fn arg c s = Inr (AwaitReturns (zero rt) (Some (panic_error rt r))) \<and>
         await_complete rt fn' arg c s = Inr (AwaitReturns v (Some e))"
  using assms by (simp add: await_panic await_return)

theorem panic_beats_cancellation_witness:
  "err_on_entry ctx_cancelled_later = None \<and>
   err_after_call ctx_cancelled_later = Some ''context canceled'' \<and>
   panicFn ctx_cancelled_later 5 = Panic ''boom'' \<and>
   fetchName ctx_cancelled_later 5 = Return ''user'' None \<and>
   await_complete rt_string panicFn 5 ctx_cancelled_later state0
     = Inr (AwaitReturns [] (Some ''[Fetcher.Async]: panic recovered: boom'')) \<and>
   await_complete rt_string fetchName 5 ctx_cancelled_later state0
     = Inr (AwaitReturns ''user'' (Some ''context canceled''))"
  using panic_beats_cancellation[of ctx_cancelled_later "''context canceled''" panicFn 5 "''boom''"
      fetchName "''user''" rt_string state0]
  by (simp add: ctx_cancelled_later_def panicFn_def fetchName_def rt_string_def panic_error_def)

end
